theory Spec2Isabelle
  imports Complex_Main "HOL-Library.Sublist" "HOL-Library.Multiset"
begin

section \<open>Candidate ranking engine (backend/services/ranking\_system.py)\<close>

text \<open>
  A shallow embedding of the class \<open>RankingSystem\<close>. Modelling decisions:
  \<^item> Python floats are modelled as \<open>real\<close>: rounding, overflow, infinities and NaN are
    not represented. Integers produced by the JSON decoder are embedded in \<open>real\<close> too.
  \<^item> A nullable \<open>Text\<close> column is a \<open>string option\<close> (\<open>None\<close> is SQL NULL / Python
    \<open>None\<close>). Strings are lists of 8-bit characters; case folding and white space are
    those of the ASCII range.
  \<^item> \<open>json.loads\<close> belongs to the Python standard library, not to this repository. It
    is a parameter \<open>loads\<close> of the scorers: \<open>loads s = None\<close> stands for any exception
    raised by the decoder (the source catches all of them with a bare \<open>except\<close>), and
    \<open>loads s = Some v\<close> for the decoded value \<open>v\<close>.
  \<^item> An exception that leaves a scorer is the left injection of a sum type.
\<close>

subsection \<open>Data model\<close>

text \<open>Values that \<open>json.loads\<close> can return. A Python \<open>dict\<close> is an association list
  in insertion order (its keys are pairwise distinct).\<close>

datatype json =
    JNull
  | JBool bool
  | JNum real
  | JStr string
  | JArr "json list"
  | JObj "(string \<times> json) list"

datatype error = TypeError | AttributeError | ZeroDivisionError

text \<open>models/candidate.py and models/job.py (\<open>id\<close> is renamed, it is a HOL constant).\<close>

record Candidate =
  candidate_id :: int
  name :: string
  email :: string
  phone :: "string option"
  skills :: "string option"
  experience :: "string option"
  education :: "string option"
  certifications :: "string option"
  interests :: "string option"
  personality_traits :: "string option"
  test_personality_traits :: "string option"
  cv_filename :: "string option"

record Job =
  job_id :: int
  title :: string
  description :: "string option"
  required_skills :: "string option"
  required_experience :: "string option"
  required_education :: "string option"
  required_certifications :: "string option"
  required_personality_traits :: "string option"

text \<open>The instance attributes set by \<open>__init__\<close>.\<close>

record RankingSystem =
  skill_weight :: real
  experience_weight :: real
  education_weight :: real
  certification_weight :: real
  personality_weight :: real

definition init :: RankingSystem where
  "init = \<lparr> skill_weight = 0.3, experience_weight = 0.2, education_weight = 0.1,
            certification_weight = 0.1, personality_weight = 0.3 \<rparr>"

subsection \<open>Python primitives used by the scorers\<close>

text \<open>Truth value of an optional string: \<open>not x\<close> holds for \<open>None\<close> and for the empty
  string. Every \<open>the\<close> below is applied to a field that was tested with it.\<close>

fun truthy_text :: "string option \<Rightarrow> bool" where
  "truthy_text None = False"
| "truthy_text (Some s) = (s \<noteq> [])"

text \<open>Truth value of a decoded JSON value.\<close>

fun truthy :: "json \<Rightarrow> bool" where
  "truthy JNull = False"
| "truthy (JBool b) = b"
| "truthy (JNum r) = (r \<noteq> 0)"
| "truthy (JStr s) = (s \<noteq> [])"
| "truthy (JArr xs) = (xs \<noteq> [])"
| "truthy (JObj kvs) = (kvs \<noteq> [])"

text \<open>\<open>str.split(sep)\<close> for a one-character separator: empty fields are kept, and the
  result is never the empty list.\<close>

fun split_sep :: "char \<Rightarrow> string \<Rightarrow> string list" where
  "split_sep sep [] = [[]]"
| "split_sep sep (c # cs) =
     (if c = sep then [] # split_sep sep cs
      else (case split_sep sep cs of [] \<Rightarrow> [[c]] | w # ws \<Rightarrow> (c # w) # ws))"

text \<open>White space of \<open>str.strip()\<close> and \<open>str.split()\<close> in the ASCII range: TAB, LF, VT, FF,
  CR, the separators FS, GS, RS, US, and the blank.\<close>

definition isspace :: "char \<Rightarrow> bool" where
  "isspace c = (c \<in> set [CHR 0x09, CHR 0x0A, CHR 0x0B, CHR 0x0C, CHR 0x0D,
                         CHR 0x1C, CHR 0x1D, CHR 0x1E, CHR 0x1F, CHR 0x20])"

definition strip :: "string \<Rightarrow> string" where
  "strip s = rev (dropWhile isspace (rev (dropWhile isspace s)))"

definition lower_char :: "char \<Rightarrow> char" where
  "lower_char c =
     (case map_of (zip ''ABCDEFGHIJKLMNOPQRSTUVWXYZ'' ''abcdefghijklmnopqrstuvwxyz'') c of
        None \<Rightarrow> c
      | Some l \<Rightarrow> l)"

definition lower :: "string \<Rightarrow> string" where
  "lower s = map lower_char s"

text \<open>\<open>str.split()\<close> without argument: maximal runs of non-blank characters; \<open>w\<close> is the
  word read so far.\<close>

fun split_ws_from :: "string \<Rightarrow> string \<Rightarrow> string list" where
  "split_ws_from w [] = (if w = [] then [] else [w])"
| "split_ws_from w (c # cs) =
     (if isspace c then (if w = [] then split_ws_from [] cs else w # split_ws_from [] cs)
      else split_ws_from (w @ [c]) cs)"

definition split_ws :: "string \<Rightarrow> string list" where
  "split_ws s = split_ws_from [] s"

text \<open>\<open>keyword in text\<close> on strings: \<open>keyword\<close> occurs as a contiguous substring.\<close>

fun contains :: "string \<Rightarrow> string \<Rightarrow> bool" where
  "contains [] keyword = (keyword = [])"
| "contains (c # cs) keyword = (prefix keyword (c # cs) \<or> contains cs keyword)"

text \<open>True division \<open>a / b\<close> of two integers.\<close>

definition truediv :: "nat \<Rightarrow> nat \<Rightarrow> error + real" where
  "truediv a b = (if b = 0 then Inl ZeroDivisionError else Inr (real a / real b))"

text \<open>\<open>d.get(key, default)\<close>: only a \<open>dict\<close> has the method.\<close>

fun py_get :: "json \<Rightarrow> string \<Rightarrow> json \<Rightarrow> error + json" where
  "py_get (JObj kvs) key dflt = Inr (case map_of kvs key of None \<Rightarrow> dflt | Some v \<Rightarrow> v)"
| "py_get _ key dflt = Inl AttributeError"

text \<open>The operands that \<open>-\<close> accepts here: \<open>int\<close>, \<open>float\<close> and \<open>bool\<close> (a subclass of
  \<open>int\<close>).\<close>

fun as_number :: "json \<Rightarrow> real option" where
  "as_number (JNum r) = Some r"
| "as_number (JBool b) = Some (if b then 1 else 0)"
| "as_number _ = None"

definition py_sub :: "json \<Rightarrow> json \<Rightarrow> error + real" where
  "py_sub a b =
     (case as_number a of
        None \<Rightarrow> Inl TypeError
      | Some x \<Rightarrow> (case as_number b of None \<Rightarrow> Inl TypeError | Some y \<Rightarrow> Inr (x - y)))"

text \<open>\<open>list.sort(key=key, reverse=True)\<close>: descending by key, and stable also when
  reversed, as the Python documentation of \<open>list.sort\<close> states.\<close>

definition sort_reverse :: "('a \<Rightarrow> real) \<Rightarrow> 'a list \<Rightarrow> 'a list" where
  "sort_reverse key xs = sort_key (\<lambda>x. - key x) xs"

subsection \<open>The four keyword scorers\<close>

definition calculate_skill_score :: "Candidate \<Rightarrow> Job \<Rightarrow> error + real" where
  "calculate_skill_score candidate_obj job_profile =
     (if \<not> truthy_text (required_skills job_profile) \<or> \<not> truthy_text (skills candidate_obj)
      then Inr 0.5
      else
        let required_skills =
              map (\<lambda>skill. lower (strip skill))
                (split_sep CHR '','' (the (required_skills job_profile)));
            candidate_skills =
              map (\<lambda>skill. lower (strip skill))
                (split_sep CHR '','' (the (skills candidate_obj)))
        in if required_skills = [] then Inr 0.5
           else
             let match_count =
                   length (filter (\<lambda>skill. skill \<in> set candidate_skills) required_skills)
             in truediv match_count (length required_skills))"

definition calculate_experience_score :: "Candidate \<Rightarrow> Job \<Rightarrow> error + real" where
  "calculate_experience_score candidate_obj job_profile =
     (if \<not> truthy_text (required_experience job_profile) \<or>
         \<not> truthy_text (experience candidate_obj)
      then Inr 0.5
      else
        let required_keywords = split_ws (lower (the (required_experience job_profile)));
            candidate_experience_text = lower (the (experience candidate_obj));
            match_count =
              length (filter (\<lambda>keyword. contains candidate_experience_text keyword)
                        required_keywords)
        in if required_keywords \<noteq> [] then truediv match_count (length required_keywords)
           else Inr 0.5)"

definition calculate_education_score :: "Candidate \<Rightarrow> Job \<Rightarrow> error + real" where
  "calculate_education_score candidate_obj job_profile =
     (if \<not> truthy_text (required_education job_profile) \<or>
         \<not> truthy_text (education candidate_obj)
      then Inr 0.5
      else
        let required_keywords = split_ws (lower (the (required_education job_profile)));
            candidate_education_text = lower (the (education candidate_obj));
            match_count =
              length (filter (\<lambda>keyword. contains candidate_education_text keyword)
                        required_keywords)
        in if required_keywords \<noteq> [] then truediv match_count (length required_keywords)
           else Inr 0.5)"

definition calculate_certification_score :: "Candidate \<Rightarrow> Job \<Rightarrow> error + real" where
  "calculate_certification_score candidate_obj job_profile =
     (if \<not> truthy_text (required_certifications job_profile) \<or>
         \<not> truthy_text (certifications candidate_obj)
      then Inr 0.5
      else
        let required_certs =
              map (\<lambda>cert. lower (strip cert))
                (split_sep CHR '','' (the (required_certifications job_profile)));
            candidate_certs =
              map (\<lambda>cert. lower (strip cert))
                (split_sep CHR '','' (the (certifications candidate_obj)))
        in if required_certs = [] then Inr 0.5
           else
             let match_count =
                   length (filter (\<lambda>cert. cert \<in> set candidate_certs) required_certs)
             in truediv match_count (length required_certs))"

subsection \<open>The personality scorer\<close>

text \<open>The body of the \<open>for trait in required_traits\<close> loop over the remaining keys;
  \<open>distance\<close> is the accumulator.\<close>

fun distance_loop :: "json \<Rightarrow> json \<Rightarrow> string list \<Rightarrow> real \<Rightarrow> error + real" where
  "distance_loop required_traits candidate_traits [] distance = Inr distance"
| "distance_loop required_traits candidate_traits (trait # traits) distance =
     (case py_get required_traits trait (JNum 0.5) of
        Inl e \<Rightarrow> Inl e
      | Inr required_value \<Rightarrow>
          (case py_get candidate_traits trait (JNum 0.5) of
             Inl e \<Rightarrow> Inl e
           | Inr candidate_value \<Rightarrow>
               (case py_sub required_value candidate_value of
                  Inl e \<Rightarrow> Inl e
                | Inr diff \<Rightarrow>
                    distance_loop required_traits candidate_traits traits
                      (distance + diff\<^sup>2))))"

text \<open>The whole loop, by the type of \<open>required_traits\<close>: a \<open>dict\<close> iterates over its keys;
  a non-empty list or string starts iterating and fails at the first \<open>.get\<close>; a number,
  a Boolean and \<open>None\<close> are not iterable.\<close>

fun sum_squares :: "json \<Rightarrow> json \<Rightarrow> error + real" where
  "sum_squares (JObj kvs) candidate_traits =
     distance_loop (JObj kvs) candidate_traits (map fst kvs) 0"
| "sum_squares (JArr xs) candidate_traits = (if xs = [] then Inr 0 else Inl AttributeError)"
| "sum_squares (JStr s) candidate_traits = (if s = [] then Inr 0 else Inl AttributeError)"
| "sum_squares _ candidate_traits = Inl TypeError"

text \<open>The \<open>if\<close>/\<open>elif\<close>/\<open>else\<close> that picks the candidate's traits: \<open>None\<close> is the
  \<open>else\<close> branch (\<open>return 0.5\<close>), and a decoder failure yields the empty \<open>dict\<close>.\<close>

definition candidate_traits_of :: "(string \<Rightarrow> json option) \<Rightarrow> Candidate \<Rightarrow> json option" where
  "candidate_traits_of loads candidate_obj =
     (if truthy_text (test_personality_traits candidate_obj) then
        (case loads (the (test_personality_traits candidate_obj)) of
           None \<Rightarrow> Some (JObj [])
         | Some v \<Rightarrow> Some v)
      else if truthy_text (personality_traits candidate_obj) then
        (case loads (the (personality_traits candidate_obj)) of
           None \<Rightarrow> Some (JObj [])
         | Some v \<Rightarrow> Some v)
      else None)"

definition calculate_personality_score ::
  "(string \<Rightarrow> json option) \<Rightarrow> Candidate \<Rightarrow> Job \<Rightarrow> error + real" where
  "calculate_personality_score loads candidate_obj job_profile =
     (if \<not> truthy_text (required_personality_traits job_profile) then Inr 0.5
      else
        (case loads (the (required_personality_traits job_profile)) of
           None \<Rightarrow> Inr 0.5
         | Some required_traits \<Rightarrow>
             (case candidate_traits_of loads candidate_obj of
                None \<Rightarrow> Inr 0.5
              | Some candidate_traits \<Rightarrow>
                  if \<not> truthy required_traits \<or> \<not> truthy candidate_traits then Inr 0.5
                  else
                    (case sum_squares required_traits candidate_traits of
                       Inl e \<Rightarrow> Inl e
                     | Inr distance \<Rightarrow> Inr (1 - sqrt distance / sqrt 5)))))"

subsection \<open>Composite score and ranking\<close>

definition calculate_candidate_score ::
  "RankingSystem \<Rightarrow> (string \<Rightarrow> json option) \<Rightarrow> Candidate \<Rightarrow> Job \<Rightarrow> error + real" where
  "calculate_candidate_score self loads candidate_obj job_profile =
     (case calculate_skill_score candidate_obj job_profile of
        Inl e \<Rightarrow> Inl e
      | Inr skill_score \<Rightarrow>
     (case calculate_experience_score candidate_obj job_profile of
        Inl e \<Rightarrow> Inl e
      | Inr experience_score \<Rightarrow>
     (case calculate_education_score candidate_obj job_profile of
        Inl e \<Rightarrow> Inl e
      | Inr education_score \<Rightarrow>
     (case calculate_certification_score candidate_obj job_profile of
        Inl e \<Rightarrow> Inl e
      | Inr certification_score \<Rightarrow>
     (case calculate_personality_score loads candidate_obj job_profile of
        Inl e \<Rightarrow> Inl e
      | Inr personality_score \<Rightarrow>
          Inr (skill_score * skill_weight self +
               experience_score * experience_weight self +
               education_score * education_weight self +
               certification_score * certification_weight self +
               personality_score * personality_weight self))))))"

text \<open>The \<open>for candidate_obj in candidates\<close> loop; \<open>ranked_candidates\<close> is the list
  built so far.\<close>

fun score_loop ::
  "RankingSystem \<Rightarrow> (string \<Rightarrow> json option) \<Rightarrow> Job \<Rightarrow> Candidate list \<Rightarrow>
     (Candidate \<times> real) list \<Rightarrow> error + (Candidate \<times> real) list" where
  "score_loop self loads job_profile [] ranked_candidates = Inr ranked_candidates"
| "score_loop self loads job_profile (candidate_obj # candidates) ranked_candidates =
     (case calculate_candidate_score self loads candidate_obj job_profile of
        Inl e \<Rightarrow> Inl e
      | Inr score \<Rightarrow>
          score_loop self loads job_profile candidates
            (ranked_candidates @ [(candidate_obj, score)]))"

definition rank_candidates ::
  "RankingSystem \<Rightarrow> (string \<Rightarrow> json option) \<Rightarrow> Candidate list \<Rightarrow> Job \<Rightarrow>
     error + (Candidate \<times> real) list" where
  "rank_candidates self loads candidates job_profile =
     (case score_loop self loads job_profile candidates [] of
        Inl e \<Rightarrow> Inl e
      | Inr ranked_candidates \<Rightarrow> Inr (sort_reverse snd ranked_candidates))"

subsection \<open>Sample records\<close>

text \<open>Concrete inputs at which the theorems below are instantiated. \<open>loads_sample\<close> lists
  what \<open>json.loads\<close> returns on seven documents; the only other string handed to it below
  is \<open>not json\<close>, on which the decoder raises.\<close>

definition sample_candidate :: Candidate where
  "sample_candidate =
     \<lparr> candidate_id = 1, name = ''Ada'', email = ''ada@example.org'', phone = None,
       skills = None, experience = None, education = None, certifications = None,
       interests = None, personality_traits = None, test_personality_traits = None,
       cv_filename = None \<rparr>"

definition sample_job :: Job where
  "sample_job =
     \<lparr> job_id = 1, title = ''Engineer'', description = None, required_skills = None,
       required_experience = None, required_education = None,
       required_certifications = None, required_personality_traits = None \<rparr>"

definition openness_08 :: string where
  "openness_08 = ''{\"openness\": 0.8}''"

definition openness_02 :: string where
  "openness_02 = ''{\"openness\": 0.2}''"

definition five_ones :: string where
  "five_ones = ''{\"o\": 1, \"c\": 1, \"e\": 1, \"a\": 1, \"n\": 1}''"

definition five_zeros :: string where
  "five_zeros = ''{\"o\": 0, \"c\": 0, \"e\": 0, \"a\": 0, \"n\": 0}''"

definition six_ones :: string where
  "six_ones = ''{\"o\": 1, \"c\": 1, \"e\": 1, \"a\": 1, \"n\": 1, \"h\": 1}''"

definition six_zeros :: string where
  "six_zeros = ''{\"o\": 0, \"c\": 0, \"e\": 0, \"a\": 0, \"n\": 0, \"h\": 0}''"

definition loads_sample :: "string \<Rightarrow> json option" where
  "loads_sample =
     map_of
       [(openness_08, JObj [(''openness'', JNum 0.8)]),
        (openness_02, JObj [(''openness'', JNum 0.2)]),
        (five_ones, JObj (map (\<lambda>k. (k, JNum 1)) [''o'', ''c'', ''e'', ''a'', ''n''])),
        (five_zeros, JObj (map (\<lambda>k. (k, JNum 0)) [''o'', ''c'', ''e'', ''a'', ''n''])),
        (six_ones, JObj (map (\<lambda>k. (k, JNum 1)) [''o'', ''c'', ''e'', ''a'', ''n'', ''h''])),
        (six_zeros, JObj (map (\<lambda>k. (k, JNum 0)) [''o'', ''c'', ''e'', ''a'', ''n'', ''h''])),
        (''[1]'', JArr [JNum 1])]"

text \<open>A job that asks for one item per factor, and three candidates who meet it to
  different degrees.\<close>

definition engineer_job :: Job where
  "engineer_job =
     sample_job \<lparr> required_skills := Some ''Python'', required_experience := Some ''backend'',
       required_education := Some ''BSc'', required_certifications := Some ''AWS'',
       required_personality_traits := Some openness_08 \<rparr>"

definition strong_candidate :: Candidate where
  "strong_candidate =
     sample_candidate \<lparr> skills := Some ''python, sql'',
       experience := Some ''Backend developer'', education := Some ''BSc Physics'',
       certifications := Some ''scrum'', test_personality_traits := Some openness_08 \<rparr>"

definition weak_candidate :: Candidate where
  "weak_candidate =
     sample_candidate \<lparr> candidate_id := 2, name := ''Bob'', skills := Some ''cobol'',
       experience := Some ''sales'', education := Some ''none'',
       certifications := Some ''none'', test_personality_traits := Some openness_08 \<rparr>"

definition medium_candidate :: Candidate where
  "medium_candidate =
     sample_candidate \<lparr> candidate_id := 3, name := ''Cy'', skills := Some ''python'',
       experience := Some ''sales'', education := Some ''none'',
       certifications := Some ''none'', test_personality_traits := Some openness_08 \<rparr>"

subsection \<open>The specification's tokenizer\<close>

text \<open>Section 4.1 of the specification: split a skills field at the commas, trim each
  piece and put it in lower case.\<close>

definition tokens :: "string \<Rightarrow> string list" where
  "tokens s = map (\<lambda>t. lower (strip t)) (split_sep CHR '','' s)"

section \<open>Properties\<close>

subsection \<open>Unfolding sets for evaluation at the sample records\<close>

lemmas sample_defs =
  sample_candidate_def sample_job_def engineer_job_def strong_candidate_def
  weak_candidate_def medium_candidate_def

lemmas doc_defs =
  loads_sample_def openness_08_def openness_02_def five_ones_def five_zeros_def
  six_ones_def six_zeros_def

lemmas text_defs = lower_def lower_char_def strip_def isspace_def split_ws_def truediv_def

lemmas scorer_defs =
  calculate_candidate_score_def calculate_skill_score_def calculate_experience_score_def
  calculate_education_score_def calculate_certification_score_def
  calculate_personality_score_def candidate_traits_of_def py_sub_def init_def

subsection \<open>The keyword scorers always return, within the unit interval\<close>

lemma split_sep_not_Nil: "split_sep sep s \<noteq> []"
  by (induction s) (auto split: list.splits)

lemma skill_score_range:
  "case calculate_skill_score c j of Inl e \<Rightarrow> False | Inr s \<Rightarrow> 0 \<le> s \<and> s \<le> 1"
  unfolding calculate_skill_score_def Let_def
  by (simp add: split_sep_not_Nil truediv_def)

lemma certification_score_range:
  "case calculate_certification_score c j of Inl e \<Rightarrow> False | Inr s \<Rightarrow> 0 \<le> s \<and> s \<le> 1"
  unfolding calculate_certification_score_def Let_def
  by (simp add: split_sep_not_Nil truediv_def)

lemma experience_score_range:
  "case calculate_experience_score c j of Inl e \<Rightarrow> False | Inr s \<Rightarrow> 0 \<le> s \<and> s \<le> 1"
  unfolding calculate_experience_score_def Let_def
  by (simp add: truediv_def)

lemma education_score_range:
  "case calculate_education_score c j of Inl e \<Rightarrow> False | Inr s \<Rightarrow> 0 \<le> s \<and> s \<le> 1"
  unfolding calculate_education_score_def Let_def
  by (simp add: truediv_def)

subsection \<open>The squared distance only grows\<close>



lemma distance_loop_unit_steps:
  assumes "\<forall>k \<in> set ks. \<exists>rv cv diff.
             py_get r k (JNum 0.5) = Inr rv \<and> py_get c k (JNum 0.5) = Inr cv \<and>
             py_sub rv cv = Inr diff \<and> \<bar>diff\<bar> = 1"
  shows "distance_loop r c ks d = Inr (d + real (length ks))"
  using assms
proof (induction ks arbitrary: d)
  case Nil
  then show ?case by simp
next
  case (Cons k ks)
  from Cons.prems obtain rv cv diff where
    step: "py_get r k (JNum 0.5) = Inr rv" "py_get c k (JNum 0.5) = Inr cv"
      "py_sub rv cv = Inr diff" "\<bar>diff\<bar> = 1"
    by auto
  from step(4) have sq: "diff\<^sup>2 = 1"
    by (metis one_power2 power2_abs)
  have "distance_loop r c ks (d + diff\<^sup>2) = Inr (d + diff\<^sup>2 + real (length ks))"
    using Cons.prems by (intro Cons.IH) simp
  then show ?case
    using step sq by simp
qed

subsection \<open>The scoring loop and the sort\<close>








subsection \<open>Only the personality scorer can raise\<close>

lemma keyword_scorers_return:
  "\<exists>a b d e. calculate_skill_score c j = Inr a \<and> calculate_experience_score c j = Inr b \<and>
     calculate_education_score c j = Inr d \<and> calculate_certification_score c j = Inr e"
  using skill_score_range [of c j] experience_score_range [of c j]
    education_score_range [of c j] certification_score_range [of c j]
  by (auto split: sum.splits)

lemma candidate_score_error:
  "calculate_candidate_score self loads c j = Inl e \<Longrightarrow>
   calculate_personality_score loads c j = Inl e"
  using keyword_scorers_return [of c j]
  by (auto simp add: calculate_candidate_score_def split: sum.splits)

lemma candidate_score_raises:
  "calculate_personality_score loads c j = Inl e \<Longrightarrow>
   calculate_candidate_score self loads c j = Inl e"
  using keyword_scorers_return [of c j]
  by (auto simp add: calculate_candidate_score_def split: sum.splits)

lemma score_loop_error:
  "score_loop self loads j cs acc = Inl e \<Longrightarrow>
   \<exists>c \<in> set cs. calculate_candidate_score self loads c j = Inl e"
  by (induction cs arbitrary: acc) (auto split: sum.splits)

lemma score_loop_raises:
  "c \<in> set cs \<Longrightarrow> calculate_candidate_score self loads c j = Inl e \<Longrightarrow>
   \<exists>e'. score_loop self loads j cs acc = Inl e'"
proof (induction cs arbitrary: acc)
  case Nil
  then show ?case by simp
next
  case (Cons a cs)
  show ?case
  proof (cases "calculate_candidate_score self loads a j")
    case (Inl e')
    then show ?thesis by simp
  next
    case (Inr s)
    with Cons.prems have "c \<in> set cs" by auto
    from Cons.IH [OF this Cons.prems(2)] Inr show ?thesis by simp
  qed
qed

lemma array_requirement_error:
  assumes "truthy_text (required_personality_traits j)"
    and "loads (the (required_personality_traits j)) = Some (JArr (x # xs))"
    and "calculate_personality_score loads c j = Inl e"
  shows "e = AttributeError"
  using assms
  by (auto simp add: calculate_personality_score_def split: option.splits if_splits)

subsection \<open>Unit differences on every required trait\<close>

lemma unit_differences_score:
  assumes "truthy_text (required_personality_traits j)"
    and "loads (the (required_personality_traits j)) = Some (JObj kvs)"
    and "candidate_traits_of loads c = Some traits"
    and "truthy (JObj kvs)" and "truthy traits"
    and "\<forall>k \<in> set (map fst kvs). \<exists>rv cv diff.
           py_get (JObj kvs) k (JNum 0.5) = Inr rv \<and> py_get traits k (JNum 0.5) = Inr cv \<and>
           py_sub rv cv = Inr diff \<and> \<bar>diff\<bar> = 1"
  shows "sum_squares (JObj kvs) traits = Inr (real (length kvs))"
    and "calculate_personality_score loads c j = Inr (1 - sqrt (real (length kvs)) / sqrt 5)"
proof -
  have "distance_loop (JObj kvs) traits (map fst kvs) 0 = Inr (0 + real (length (map fst kvs)))"
    using assms(6) by (intro distance_loop_unit_steps) blast
  then show s: "sum_squares (JObj kvs) traits = Inr (real (length kvs))"
    by simp
  with assms(1-5) show
    "calculate_personality_score loads c j = Inr (1 - sqrt (real (length kvs)) / sqrt 5)"
    by (simp add: calculate_personality_score_def)
qed

lemma six_unit_differences_negative:
  "1 - sqrt 6 / sqrt 5 < (0::real)" "(1 - sqrt 6 / sqrt 5) * 0.3 < (0::real)"
proof -
  show n: "1 - sqrt 6 / sqrt 5 < (0::real)" by simp
  then show "(1 - sqrt 6 / sqrt 5) * 0.3 < (0::real)"
    by (rule mult_neg_pos) simp
qed

subsection \<open>Scores of the sample candidates\<close>







subsection \<open>Claims\<close>

text \<open>Claim C1. The interval [0,1] is left when more than five traits are required. If
  every one of more than five required traits differs from the candidate's value by
  exactly 1, the personality score is \<open>1 - sqrt n / sqrt 5\<close> for \<open>n\<close> required traits,
  which is negative; and if the four keyword scores are 0, the composite score under the
  default weights is negative too.\<close>

theorem personality_score_negative_beyond_five_traits:
  assumes "truthy_text (required_personality_traits j)"
    and "loads (the (required_personality_traits j)) = Some (JObj kvs)"
    and "candidate_traits_of loads c = Some traits"
    and "truthy traits"
    and "\<forall>k \<in> set (map fst kvs). \<exists>rv cv diff.
           py_get (JObj kvs) k (JNum 0.5) = Inr rv \<and> py_get traits k (JNum 0.5) = Inr cv \<and>
           py_sub rv cv = Inr diff \<and> \<bar>diff\<bar> = 1"
    and "5 < length kvs"
  shows "calculate_personality_score loads c j
           = Inr (1 - sqrt (real (length kvs)) / sqrt 5) \<and>
         1 - sqrt (real (length kvs)) / sqrt 5 < 0 \<and>
         (calculate_skill_score c j = Inr 0 \<and> calculate_experience_score c j = Inr 0 \<and>
          calculate_education_score c j = Inr 0 \<and> calculate_certification_score c j = Inr 0
            \<longrightarrow> calculate_candidate_score init loads c j
                  = Inr ((1 - sqrt (real (length kvs)) / sqrt 5) * 0.3) \<and>
                (1 - sqrt (real (length kvs)) / sqrt 5) * 0.3 < 0)"
proof -
  let ?p = "1 - sqrt (real (length kvs)) / sqrt 5"
  from assms(6) have "truthy (JObj kvs)" by auto
  with assms have p: "calculate_personality_score loads c j = Inr ?p"
    by (intro unit_differences_score(2))
  from assms(6) have "sqrt 5 < sqrt (real (length kvs))"
    by simp
  then have neg: "?p < 0"
    by simp
  then have neg': "?p * 0.3 < 0"
    by (rule mult_neg_pos) simp
  have "calculate_skill_score c j = Inr 0 \<and> calculate_experience_score c j = Inr 0 \<and>
        calculate_education_score c j = Inr 0 \<and> calculate_certification_score c j = Inr 0
          \<longrightarrow> calculate_candidate_score init loads c j = Inr (?p * 0.3)"
    using p by (simp add: calculate_candidate_score_def init_def)
  with p neg neg' show ?thesis by blast
qed

theorem personality_score_negative_beyond_five_traits_witness:
  "calculate_personality_score loads_sample
     (weak_candidate \<lparr> test_personality_traits := Some six_zeros \<rparr>)
     (engineer_job \<lparr> required_personality_traits := Some six_ones \<rparr>)
   = Inr (1 - sqrt 6 / sqrt 5) \<and>
   1 - sqrt 6 / sqrt 5 < (0::real) \<and>
   calculate_candidate_score init loads_sample
     (weak_candidate \<lparr> test_personality_traits := Some six_zeros \<rparr>)
     (engineer_job \<lparr> required_personality_traits := Some six_ones \<rparr>)
   = Inr ((1 - sqrt 6 / sqrt 5) * 0.3) \<and>
   (1 - sqrt 6 / sqrt 5) * 0.3 < (0::real)"
  using personality_score_negative_beyond_five_traits
    [of "engineer_job \<lparr> required_personality_traits := Some six_ones \<rparr>" loads_sample
        "map (\<lambda>k. (k, JNum 1)) [''o'', ''c'', ''e'', ''a'', ''n'', ''h'']"
        "weak_candidate \<lparr> test_personality_traits := Some six_zeros \<rparr>"
        "JObj (map (\<lambda>k. (k, JNum 0)) [''o'', ''c'', ''e'', ''a'', ''n'', ''h''])"]
    six_unit_differences_negative
  by (simp add: scorer_defs sample_defs doc_defs text_defs)





text \<open>Claim C4. The skill score is 0.5 when either skills field is missing or empty;
  otherwise the list of required tokens is not empty and the score is the number of
  required tokens (with repetitions) found among the candidate's tokens, divided by the
  number of required tokens. \<open>Python, SQL\<close> against \<open>python, java, sql\<close> scores 1.\<close>

theorem skill_score_is_containment_ratio:
  "(\<not> truthy_text (required_skills j) \<or> \<not> truthy_text (skills c)
      \<longrightarrow> calculate_skill_score c j = Inr 0.5) \<and>
   (truthy_text (required_skills j) \<and> truthy_text (skills c)
      \<longrightarrow> tokens (the (required_skills j)) \<noteq> [] \<and>
          calculate_skill_score c j =
            Inr (real (length (filter (\<lambda>t. t \<in> set (tokens (the (skills c))))
                                 (tokens (the (required_skills j)))))
                 / real (length (tokens (the (required_skills j)))))) \<and>
   (required_skills j = Some ''Python, SQL'' \<and> skills c = Some ''python, java, sql''
      \<longrightarrow> calculate_skill_score c j = Inr 1)"
proof (intro conjI impI)
  assume "\<not> truthy_text (required_skills j) \<or> \<not> truthy_text (skills c)"
  then show "calculate_skill_score c j = Inr 0.5"
    by (auto simp add: calculate_skill_score_def)
next
  assume "truthy_text (required_skills j) \<and> truthy_text (skills c)"
  show "tokens (the (required_skills j)) \<noteq> []"
    by (simp add: tokens_def split_sep_not_Nil)
next
  assume "truthy_text (required_skills j) \<and> truthy_text (skills c)"
  then show "calculate_skill_score c j =
      Inr (real (length (filter (\<lambda>t. t \<in> set (tokens (the (skills c))))
                           (tokens (the (required_skills j)))))
           / real (length (tokens (the (required_skills j)))))"
    by (simp add: calculate_skill_score_def tokens_def split_sep_not_Nil truediv_def Let_def)
next
  assume "required_skills j = Some ''Python, SQL'' \<and> skills c = Some ''python, java, sql''"
  then show "calculate_skill_score c j = Inr 1"
    by (simp add: calculate_skill_score_def text_defs)
qed

theorem skill_score_is_containment_ratio_witness:
  "required_skills (sample_job \<lparr> required_skills := Some ''Python, SQL'' \<rparr>)
     = Some ''Python, SQL'' \<and>
   skills (sample_candidate \<lparr> skills := Some ''python, java, sql'' \<rparr>)
     = Some ''python, java, sql'' \<and>
   calculate_skill_score (sample_candidate \<lparr> skills := Some ''python, java, sql'' \<rparr>)
     (sample_job \<lparr> required_skills := Some ''Python, SQL'' \<rparr>) = Inr 1 \<and>
   tokens ''Python, SQL, AWS, sql'' = [''python'', ''sql'', ''aws'', ''sql''] \<and>
   calculate_skill_score (sample_candidate \<lparr> skills := Some '' SQL '' \<rparr>)
     (sample_job \<lparr> required_skills := Some ''Python, SQL, AWS, sql'' \<rparr>) = Inr (2 / 4)"
  using
    skill_score_is_containment_ratio
      [of "sample_job \<lparr> required_skills := Some ''Python, SQL'' \<rparr>"
          "sample_candidate \<lparr> skills := Some ''python, java, sql'' \<rparr>"]
    skill_score_is_containment_ratio
      [of "sample_job \<lparr> required_skills := Some ''Python, SQL, AWS, sql'' \<rparr>"
          "sample_candidate \<lparr> skills := Some '' SQL '' \<rparr>"]
  by (simp add: sample_defs tokens_def text_defs)

text \<open>Claim C5. Whenever the loop over the required traits ends with a sum of squares
  \<open>distance\<close>, the score is \<open>1 - sqrt distance / sqrt 5\<close>, the divisor being the same
  for any number of traits. When every required trait differs from the candidate's value
  by exactly 1, the sum of squares is the number of required traits, and with five
  required traits the score is 0.\<close>

theorem personality_distance_normalised_by_sqrt5:
  assumes "truthy_text (required_personality_traits j)"
    and "loads (the (required_personality_traits j)) = Some required"
    and "candidate_traits_of loads c = Some traits"
    and "truthy required" and "truthy traits"
  shows "(\<forall>distance. sum_squares required traits = Inr distance
            \<longrightarrow> calculate_personality_score loads c j = Inr (1 - sqrt distance / sqrt 5)) \<and>
         (\<forall>kvs. required = JObj kvs \<and>
            (\<forall>k \<in> set (map fst kvs). \<exists>rv cv diff.
               py_get required k (JNum 0.5) = Inr rv \<and> py_get traits k (JNum 0.5) = Inr cv \<and>
               py_sub rv cv = Inr diff \<and> \<bar>diff\<bar> = 1)
            \<longrightarrow> sum_squares required traits = Inr (real (length kvs)) \<and>
                (length kvs = 5 \<longrightarrow> calculate_personality_score loads c j = Inr 0))"
proof (intro conjI allI impI)
  fix distance
  assume "sum_squares required traits = Inr distance"
  with assms show "calculate_personality_score loads c j = Inr (1 - sqrt distance / sqrt 5)"
    by (simp add: calculate_personality_score_def)
next
  fix kvs
  assume h: "required = JObj kvs \<and>
            (\<forall>k \<in> set (map fst kvs). \<exists>rv cv diff.
               py_get required k (JNum 0.5) = Inr rv \<and> py_get traits k (JNum 0.5) = Inr cv \<and>
               py_sub rv cv = Inr diff \<and> \<bar>diff\<bar> = 1)"
  then have "distance_loop required traits (map fst kvs) 0 = Inr (0 + real (length (map fst kvs)))"
    by (intro distance_loop_unit_steps) blast
  with h show s: "sum_squares required traits = Inr (real (length kvs))"
    by simp
  assume "length kvs = 5"
  with s assms show "calculate_personality_score loads c j = Inr 0"
    by (simp add: calculate_personality_score_def)
qed

theorem personality_distance_normalised_by_sqrt5_witness:
  "truthy_text (required_personality_traits
     (sample_job \<lparr> required_personality_traits := Some five_ones \<rparr>)) \<and>
   loads_sample five_ones
     = Some (JObj (map (\<lambda>k. (k, JNum 1)) [''o'', ''c'', ''e'', ''a'', ''n''])) \<and>
   candidate_traits_of loads_sample
     (sample_candidate \<lparr> test_personality_traits := Some five_zeros \<rparr>)
     = Some (JObj (map (\<lambda>k. (k, JNum 0)) [''o'', ''c'', ''e'', ''a'', ''n''])) \<and>
   sum_squares (JObj (map (\<lambda>k. (k, JNum 1)) [''o'', ''c'', ''e'', ''a'', ''n'']))
     (JObj (map (\<lambda>k. (k, JNum 0)) [''o'', ''c'', ''e'', ''a'', ''n''])) = Inr 5 \<and>
   calculate_personality_score loads_sample
     (sample_candidate \<lparr> test_personality_traits := Some five_zeros \<rparr>)
     (sample_job \<lparr> required_personality_traits := Some five_ones \<rparr>) = Inr 0"
  using personality_distance_normalised_by_sqrt5
    [of "sample_job \<lparr> required_personality_traits := Some five_ones \<rparr>" loads_sample
        "JObj (map (\<lambda>k. (k, JNum 1)) [''o'', ''c'', ''e'', ''a'', ''n''])"
        "sample_candidate \<lparr> test_personality_traits := Some five_zeros \<rparr>"
        "JObj (map (\<lambda>k. (k, JNum 0)) [''o'', ''c'', ''e'', ''a'', ''n''])"]
  by (simp add: sample_defs doc_defs candidate_traits_of_def py_sub_def)

text \<open>Claim C6. Each of the skill, experience, education and certification scorers returns
  0.5, and no error, as soon as the job's field or the candidate's field is missing or
  empty, whatever the other field holds.\<close>

theorem keyword_scores_neutral_on_missing_data:
  "(\<not> truthy_text (required_skills j) \<or> \<not> truthy_text (skills c)
      \<longrightarrow> calculate_skill_score c j = Inr 0.5) \<and>
   (\<not> truthy_text (required_experience j) \<or> \<not> truthy_text (experience c)
      \<longrightarrow> calculate_experience_score c j = Inr 0.5) \<and>
   (\<not> truthy_text (required_education j) \<or> \<not> truthy_text (education c)
      \<longrightarrow> calculate_education_score c j = Inr 0.5) \<and>
   (\<not> truthy_text (required_certifications j) \<or> \<not> truthy_text (certifications c)
      \<longrightarrow> calculate_certification_score c j = Inr 0.5)"
  by (simp add: calculate_skill_score_def calculate_experience_score_def
      calculate_education_score_def calculate_certification_score_def)

theorem keyword_scores_neutral_on_missing_data_witness:
  "\<not> truthy_text (required_skills (engineer_job \<lparr> required_skills := Some [] \<rparr>)) \<and>
   calculate_skill_score strong_candidate (engineer_job \<lparr> required_skills := Some [] \<rparr>) = Inr 0.5 \<and>
   \<not> truthy_text (experience (strong_candidate \<lparr> experience := None \<rparr>)) \<and>
   calculate_experience_score (strong_candidate \<lparr> experience := None \<rparr>) engineer_job = Inr 0.5 \<and>
   \<not> truthy_text (required_education sample_job) \<and>
   calculate_education_score strong_candidate sample_job = Inr 0.5 \<and>
   \<not> truthy_text (certifications (strong_candidate \<lparr> certifications := Some [] \<rparr>)) \<and>
   calculate_certification_score (strong_candidate \<lparr> certifications := Some [] \<rparr>) engineer_job
     = Inr 0.5"
  using
    keyword_scores_neutral_on_missing_data
      [of "engineer_job \<lparr> required_skills := Some [] \<rparr>" strong_candidate]
    keyword_scores_neutral_on_missing_data
      [of engineer_job "strong_candidate \<lparr> experience := None \<rparr>"]
    keyword_scores_neutral_on_missing_data [of sample_job strong_candidate]
    keyword_scores_neutral_on_missing_data
      [of engineer_job "strong_candidate \<lparr> certifications := Some [] \<rparr>"]
  by (simp add: sample_defs)





text \<open>Claim C9. The ranking does raise. When the required traits decode to a non-empty
  JSON array and some candidate of the list has non-empty traits, that candidate's
  personality scorer raises \<open>AttributeError\<close> at the first \<open>.get\<close>, and so does
  \<open>rank_candidates\<close> on the whole list.\<close>

theorem non_mapping_required_traits_raise:
  assumes "truthy_text (required_personality_traits j)"
    and "loads (the (required_personality_traits j)) = Some (JArr (x # xs))"
    and "candidate_traits_of loads c = Some traits"
    and "truthy traits"
    and "c \<in> set cs"
  shows "calculate_personality_score loads c j = Inl AttributeError \<and>
         rank_candidates self loads cs j = Inl AttributeError"
proof
  from assms(1-4) show p: "calculate_personality_score loads c j = Inl AttributeError"
    by (simp add: calculate_personality_score_def)
  then have "calculate_candidate_score self loads c j = Inl AttributeError"
    by (rule candidate_score_raises)
  with assms(5) obtain e where e: "score_loop self loads j cs [] = Inl e"
    using score_loop_raises by blast
  then obtain c' where "calculate_candidate_score self loads c' j = Inl e"
    using score_loop_error by blast
  then have "calculate_personality_score loads c' j = Inl e"
    by (rule candidate_score_error)
  with assms(1,2) have "e = AttributeError"
    by (rule array_requirement_error)
  with e show "rank_candidates self loads cs j = Inl AttributeError"
    by (simp add: rank_candidates_def)
qed

theorem non_mapping_required_traits_raise_witness:
  "truthy_text (required_personality_traits
     (engineer_job \<lparr> required_personality_traits := Some ''[1]'' \<rparr>)) \<and>
   loads_sample ''[1]'' = Some (JArr [JNum 1]) \<and>
   candidate_traits_of loads_sample strong_candidate = Some (JObj [(''openness'', JNum 0.8)]) \<and>
   calculate_personality_score loads_sample strong_candidate
     (engineer_job \<lparr> required_personality_traits := Some ''[1]'' \<rparr>) = Inl AttributeError \<and>
   rank_candidates init loads_sample [weak_candidate \<lparr> test_personality_traits := None \<rparr>,
       strong_candidate]
     (engineer_job \<lparr> required_personality_traits := Some ''[1]'' \<rparr>) = Inl AttributeError"
  using non_mapping_required_traits_raise
    [of "engineer_job \<lparr> required_personality_traits := Some ''[1]'' \<rparr>" loads_sample
        "JNum 1" "[]" strong_candidate "JObj [(''openness'', JNum 0.8)]"
        "[weak_candidate \<lparr> test_personality_traits := None \<rparr>, strong_candidate]" init]
  by (simp add: sample_defs doc_defs candidate_traits_of_def)



end
